theory Spec2Isabelle
  imports Main
begin

section \<open>The quick-open modal (src/components/QuickOpenModal.js)\<close>

subsection \<open>JavaScript numbers as far as the modal uses them\<close>

text \<open>
  \<open>state.selectedIndex\<close> is a JavaScript number. It starts at \<open>0\<close> and is only ever
  written by \<open>traverseResults\<close>, from \<open>+\<close> and \<open>%\<close> on integers far below \<open>2^53\<close>, so its
  values are integers or \<open>NaN\<close> (the remainder by zero). Negative zero is identified with
  zero: array indexing and comparison do not tell them apart.
\<close>

datatype jsnum = Num int | NaN

fun js_add :: "jsnum \<Rightarrow> jsnum \<Rightarrow> jsnum" where
  "js_add (Num a) (Num b) = Num (a + b)"
| "js_add _ _ = NaN"

text \<open>The operator \<open>%\<close>: the remainder takes the sign of the dividend; by zero it is \<open>NaN\<close>.\<close>

fun js_rem :: "jsnum \<Rightarrow> jsnum \<Rightarrow> jsnum" where
  "js_rem (Num a) (Num b) =
     (if b = 0 then NaN
      else if a < 0 then Num (- ((- a) mod \<bar>b\<bar>))
      else Num (a mod \<bar>b\<bar>))"
| "js_rem _ _ = NaN"

text \<open>\<open>xs[i]\<close> on an array: \<open>undefined\<close> when \<open>i\<close> is not an index of \<open>xs\<close>.\<close>

fun js_index :: "'a list \<Rightarrow> jsnum \<Rightarrow> 'a option" where
  "js_index xs (Num i) = (if 0 \<le> i \<and> i < int (length xs) then Some (xs ! nat i) else None)"
| "js_index xs NaN = None"

subsection \<open>Data\<close>

text \<open>
  Modelled from the spec: the type \<open>QuickOpenResult\<close> of utils/quick-open, which is not
  among the sources. The spec's data model gives a result item as
  \<open>{ id, title, subtitle?, location? }\<close> with \<open>location\<close> an optional
  \<open>{start: {line, column}, end: {line, column}}\<close>; the modal also reads \<open>value\<close> (the key
  of the fuzzy filter) and, on a source, \<open>url\<close>.
\<close>

record position =
  pos_line :: int
  pos_column :: int

record BabelLocation =
  loc_start :: position
  loc_end :: position

record QuickOpenResult =
  item_id :: string
  item_value :: string
  item_title :: string
  item_subtitle :: "string option"
  item_url :: "string option"
  item_location :: "BabelLocation option"

text \<open>A \<open>SourceRecord\<close>, read through \<open>get("id")\<close> and \<open>get("text")\<close>.\<close>

record SourceRecord =
  src_id :: string
  src_text :: "string option"

record FormattedSymbolDeclarations =
  sym_functions :: "QuickOpenResult list"
  sym_variables :: "QuickOpenResult list"

record Props =
  enabled :: bool
  sources :: "QuickOpenResult list"
  selectedSource :: "SourceRecord option"
  query :: string
  searchType :: string
  symbols :: FormattedSymbolDeclarations
  tabs :: "string list"

record State =
  results :: "QuickOpenResult list option"
  selectedIndex :: jsnum

text \<open>
  \<open>GotoLocationType\<close>. The type says \<open>line: number\<close>, but \<open>selectResultItem\<close> spreads a
  possibly undefined parse result and then has no \<open>line\<close>, so the field is optional here.
\<close>

record GotoLocationType =
  goto_sourceId :: "string option"
  goto_line :: "int option"
  goto_column :: "int option"

text \<open>The callbacks of the props, as the effects an operation emits, in order.\<close>

datatype effect =
    SelectLocation string "int option" "int option"
  | SetQuickOpenQuery string
  | HighlightLineRange "(int \<times> int) option" string
  | CloseQuickOpen
  | ScrollList jsnum

datatype error = TypeError

type_synonym 'a result = "error + 'a"

datatype FuzzyResult = FuzzyMatch string | FuzzyMiss string

text \<open>
  What the modal imports and the sources do not hold, as parameters: the filter of
  fuzzaldrin-plus (candidates, query, key, maxResults), and \<open>parseLineColumn\<close>,
  \<open>formatShortcutResults\<close> and \<open>groupFuzzyMatches\<close> of utils/quick-open.
\<close>

record Imports =
  fuzzyAldrin_filter ::
    "QuickOpenResult list \<Rightarrow> string \<Rightarrow> (QuickOpenResult \<Rightarrow> string) \<Rightarrow> nat \<Rightarrow> QuickOpenResult list"
  parseLineColumn :: "string \<Rightarrow> GotoLocationType option"
  formatShortcutResults :: "QuickOpenResult list"
  groupFuzzyMatches :: "string \<Rightarrow> string \<Rightarrow> FuzzyResult list"

subsection \<open>Operations\<close>

definition filter_values :: "Imports \<Rightarrow> QuickOpenResult list \<Rightarrow> string \<Rightarrow> QuickOpenResult list" where
  "filter_values im vals q = fuzzyAldrin_filter im vals q item_value 1000"

definition constructor :: State where
  "constructor = \<lparr>results = None, selectedIndex = Num 0\<rparr>"

text \<open>Query helpers.\<close>

definition isFunctionQuery :: "Props \<Rightarrow> bool" where
  "isFunctionQuery p = (searchType p = ''functions'')"

definition isVariableQuery :: "Props \<Rightarrow> bool" where
  "isVariableQuery p = (searchType p = ''variables'')"

definition isSymbolSearch :: "Props \<Rightarrow> bool" where
  "isSymbolSearch p = (isFunctionQuery p \<or> isVariableQuery p)"

definition isGotoQuery :: "Props \<Rightarrow> bool" where
  "isGotoQuery p = (searchType p = ''goto'')"

definition isGotoSourceQuery :: "Props \<Rightarrow> bool" where
  "isGotoSourceQuery p = (searchType p = ''gotoSource'')"

definition isShortcutQuery :: "Props \<Rightarrow> bool" where
  "isShortcutQuery p = (searchType p = ''shortcuts'')"

definition isSourcesQuery :: "Props \<Rightarrow> bool" where
  "isSourcesQuery p = (searchType p = ''sources'')"

definition isSourceSearch :: "Props \<Rightarrow> bool" where
  "isSourceSearch p = (isSourcesQuery p \<or> isGotoSourceQuery p)"

text \<open>\<open>query.split(":")[0]\<close>: the part before the first colon.\<close>

definition baseQuery :: "string \<Rightarrow> string" where
  "baseQuery q = takeWhile (\<lambda>c. c \<noteq> CHR '':'') q"

definition searchSources :: "Imports \<Rightarrow> Props \<Rightarrow> string \<Rightarrow> State \<Rightarrow> State" where
  "searchSources im p q st =
     (if q = [] then st\<lparr>results := Some (sources p)\<rparr>
      else if isGotoSourceQuery p
        then st\<lparr>results := Some (filter_values im (sources p) (baseQuery q))\<rparr>
      else st\<lparr>results := Some (filter_values im (sources p) q)\<rparr>)"

definition searchSymbols :: "Imports \<Rightarrow> Props \<Rightarrow> string \<Rightarrow> State \<Rightarrow> State" where
  "searchSymbols im p q st =
     (let rs = (if isVariableQuery p then sym_variables (symbols p) else sym_functions (symbols p))
      in if q = ''@'' \<or> q = ''#'' then st\<lparr>results := Some rs\<rparr>
         else st\<lparr>results := Some (filter_values im rs (drop 1 q))\<rparr>)"

definition searchShortcuts :: "Imports \<Rightarrow> Props \<Rightarrow> string \<Rightarrow> State \<Rightarrow> State" where
  "searchShortcuts im p q st =
     (let rs = formatShortcutResults im
      in if q = ''?'' then st\<lparr>results := Some rs\<rparr>
         else st\<lparr>results := Some (filter_values im rs (drop 1 q))\<rparr>)"

text \<open>\<open>tabs.includes(source.url)\<close>: an undefined url is in no list of strings.\<close>

definition tabs_include :: "string list \<Rightarrow> QuickOpenResult \<Rightarrow> bool" where
  "tabs_include ts s = (case item_url s of None \<Rightarrow> False | Some u \<Rightarrow> u \<in> set ts)"

definition showTopSources :: "Props \<Rightarrow> State \<Rightarrow> State" where
  "showTopSources p st =
     (if length (tabs p) > 0
      then st\<lparr>results := Some (filter (tabs_include (tabs p)) (sources p))\<rparr>
      else st\<lparr>results := Some (take 100 (sources p))\<rparr>)"

definition updateResults :: "Imports \<Rightarrow> Props \<Rightarrow> string \<Rightarrow> State \<Rightarrow> State" where
  "updateResults im p q st =
     (if isGotoQuery p then st
      else if q = [] then showTopSources p st
      else if isSymbolSearch p then searchSymbols im p q st
      else if isShortcutQuery p then searchShortcuts im p q st
      else searchSources im p q st)"

text \<open>
  \<open>setModifier\<close> reads \<open>item.id\<close>: on an undefined item (\<open>results[selectedIndex]\<close> outside
  the array, from \<open>onKeyDown\<close>) that is a \<open>TypeError\<close>.
\<close>

definition setModifier :: "QuickOpenResult option \<Rightarrow> effect list result" where
  "setModifier item =
     (case item of
        None \<Rightarrow> Inl TypeError
      | Some it \<Rightarrow>
          Inr (if item_id it \<in> set [''@'', ''#'', '':''] then [SetQuickOpenQuery (item_id it)] else []))"

definition closeModal :: "effect list" where
  "closeModal = [CloseQuickOpen]"

text \<open>
  \<open>location.sourceId ? ... : ...\<close> and \<open>location.column || null\<close> test truthiness: the empty
  string and the column \<open>0\<close> count as absent.
\<close>

definition gotoLocation :: "Props \<Rightarrow> GotoLocationType option \<Rightarrow> effect list" where
  "gotoLocation p location =
     (let selectedSourceId = (case selectedSource p of None \<Rightarrow> [] | Some s \<Rightarrow> src_id s)
      in case location of
           None \<Rightarrow> []
         | Some l \<Rightarrow>
             (let sourceId = (case goto_sourceId l of
                                None \<Rightarrow> selectedSourceId
                              | Some s \<Rightarrow> if s = [] then selectedSourceId else s);
                  col = (case goto_column l of
                           None \<Rightarrow> None
                         | Some c \<Rightarrow> if c = 0 then None else Some c)
              in SelectLocation sourceId (goto_line l) col # closeModal))"

text \<open>\<open>item.location && item.location.start ? item.location.start.line : 0\<close>\<close>

definition start_line :: "QuickOpenResult \<Rightarrow> int" where
  "start_line it = (case item_location it of None \<Rightarrow> 0 | Some l \<Rightarrow> pos_line (loc_start l))"

definition selectResultItem :: "Imports \<Rightarrow> Props \<Rightarrow> QuickOpenResult option \<Rightarrow> effect list result" where
  "selectResultItem im p item =
     (case item of
        None \<Rightarrow> Inr []
      | Some it \<Rightarrow>
          if isShortcutQuery p then setModifier (Some it)
          else if isGotoSourceQuery p then
            (let location = parseLineColumn im (query p)
             in Inr (gotoLocation p
                  (Some \<lparr>goto_sourceId = Some (item_id it),
                         goto_line = (case location of None \<Rightarrow> None | Some l \<Rightarrow> goto_line l),
                         goto_column = (case location of None \<Rightarrow> None | Some l \<Rightarrow> goto_column l)\<rparr>)))
          else if isSymbolSearch p then
            Inr (gotoLocation p
                  (Some \<lparr>goto_sourceId = None, goto_line = Some (start_line it), goto_column = None\<rparr>))
          else
            Inr (gotoLocation p
                  (Some \<lparr>goto_sourceId = Some (item_id it), goto_line = Some 0, goto_column = None\<rparr>)))"

text \<open>
  \<open>onSelectResultItem\<close> reads \<open>item.location\<close> once it is past its guard: on an undefined
  item that is a \<open>TypeError\<close>.
\<close>

definition onSelectResultItem :: "Props \<Rightarrow> QuickOpenResult option \<Rightarrow> effect list result" where
  "onSelectResultItem p item =
     (if \<not> isSymbolSearch p then Inr []
      else case selectedSource p of
        None \<Rightarrow> Inr []
      | Some s \<Rightarrow>
          if isVariableQuery p then
            (case item of
               None \<Rightarrow> Inl TypeError
             | Some it \<Rightarrow> Inr [SelectLocation (src_id s) (Some (start_line it)) None])
          else if isFunctionQuery p then
            (case item of
               None \<Rightarrow> Inl TypeError
             | Some it \<Rightarrow>
                 Inr [HighlightLineRange
                        (case item_location it of
                           None \<Rightarrow> None
                         | Some l \<Rightarrow> Some (pos_line (loc_start l), pos_line (loc_end l)))
                        (src_id s)])
          else Inr [])"

definition getResultCount :: "State \<Rightarrow> int" where
  "getResultCount st =
     (case results st of
        None \<Rightarrow> 0
      | Some rs \<Rightarrow> if length rs \<noteq> 0 then int (length rs) else 0)"

text \<open>
  \<open>traverseResults\<close> sets the index, then calls \<open>onSelectResultItem\<close>; when that throws, the
  handler is aborted and the model gives the error alone.
\<close>

definition traverseResults :: "Props \<Rightarrow> string \<Rightarrow> State \<Rightarrow> (State \<times> effect list) result" where
  "traverseResults p key st =
     (let direction = (if key = ''ArrowUp'' then - 1 else 1);
          resultCount = getResultCount st;
          index = js_add (selectedIndex st) (Num direction);
          nextIndex = js_rem (js_add index (Num resultCount)) (Num resultCount);
          st' = st\<lparr>selectedIndex := nextIndex\<rparr>
      in case results st of
           None \<Rightarrow> Inr (st', [])
         | Some rs \<Rightarrow>
             (case onSelectResultItem p (js_index rs nextIndex) of
                Inl e \<Rightarrow> Inl e
              | Inr effs \<Rightarrow> Inr (st', effs)))"

text \<open>\<open>!selectedSource || !selectedSource.get("text")\<close>\<close>

definition noSource :: "Props \<Rightarrow> bool" where
  "noSource p =
     (case selectedSource p of
        None \<Rightarrow> True
      | Some s \<Rightarrow> (case src_text s of None \<Rightarrow> True | Some t \<Rightarrow> t = []))"

definition onChange :: "Imports \<Rightarrow> Props \<Rightarrow> string \<Rightarrow> State \<Rightarrow> State \<times> effect list" where
  "onChange im p v st =
     (if (isSymbolSearch p \<and> noSource p) \<or> isGotoQuery p
      then (st, [SetQuickOpenQuery v])
      else (updateResults im p v st, [SetQuickOpenQuery v]))"

definition onKeyDown :: "Imports \<Rightarrow> Props \<Rightarrow> string \<Rightarrow> State \<Rightarrow> (State \<times> effect list) result" where
  "onKeyDown im p key st =
     (if \<not> isGotoQuery p \<and> (\<not> enabled p \<or> results st = None) then Inr (st, [])
      else if key = ''Enter'' \<and> isGotoQuery p then
        Inr (st, gotoLocation p (parseLineColumn im (query p)))
      else if key = ''Enter'' \<and> results st \<noteq> None then
        (case (if isShortcutQuery p
               then setModifier (js_index (the (results st)) (selectedIndex st))
               else selectResultItem im p (js_index (the (results st)) (selectedIndex st))) of
           Inl e \<Rightarrow> Inl e
         | Inr effs \<Rightarrow> Inr (st, effs))
      else if key = ''Tab'' then Inr (st, closeModal)
      else if key \<in> set [''ArrowUp'', ''ArrowDown''] then traverseResults p key st
      else Inr (st, []))"

definition componentDidMount :: "Imports \<Rightarrow> Props \<Rightarrow> State \<Rightarrow> State" where
  "componentDidMount im p st = updateResults im p (query p) st"

text \<open>
  \<open>componentDidUpdate\<close>: the ref \<open>resultList\<close> is set when the render that has just happened
  showed the list, that is when the modal is enabled and \<open>results\<close> is not null.
\<close>

definition componentDidUpdate :: "Imports \<Rightarrow> Props \<Rightarrow> Props \<Rightarrow> State \<Rightarrow> State \<times> effect list" where
  "componentDidUpdate im prevProps p st =
     (let scroll = (if enabled p \<and> results st \<noteq> None then [ScrollList (selectedIndex st)] else []);
          nowEnabled = (\<not> enabled prevProps \<and> enabled p);
          queryChanged = (query prevProps \<noteq> query p)
      in if nowEnabled \<or> queryChanged
         then (updateResults im p (query p) st, scroll)
         else (st, scroll))"

subsection \<open>Rendering\<close>

text \<open>
  \<open>renderHighlight\<close> turns a matched part into a \<open>span\<close> of class \<open>fuzzy-match\<close> and a
  missed part into its plain text.
\<close>

datatype rendered = Span string | Plain string

definition renderHighlight :: "FuzzyResult \<Rightarrow> rendered" where
  "renderHighlight part = (case part of FuzzyMatch v \<Rightarrow> Span v | FuzzyMiss v \<Rightarrow> Plain v)"

text \<open>
  An item as the list shows it: the item, with its title and subtitle either as they
  were (\<open>Inl\<close>) or replaced by highlighted parts (\<open>Inr\<close>).
\<close>

record ListItem =
  li_item :: QuickOpenResult
  li_title :: "string + rendered list"
  li_subtitle :: "(string + rendered list) option"

definition highlightMatching :: "Imports \<Rightarrow> Props \<Rightarrow> string \<Rightarrow> QuickOpenResult list \<Rightarrow> ListItem list" where
  "highlightMatching im p q rs =
     (if q = []
      then map (\<lambda>r. \<lparr>li_item = r, li_title = Inl (item_title r),
                      li_subtitle = map_option Inl (item_subtitle r)\<rparr>) rs
      else map (\<lambda>r. \<lparr>li_item = r,
                      li_title = Inr (map renderHighlight (groupFuzzyMatches im (item_title r) q)),
                      li_subtitle =
                        (case item_subtitle r of
                           None \<Rightarrow> None
                         | Some sub \<Rightarrow>
                             if \<not> isSymbolSearch p
                             then Some (Inr (map renderHighlight (groupFuzzyMatches im sub q)))
                             else Some (Inl sub))\<rparr>) rs)"

text \<open>
  What \<open>render\<close> hands to \<open>SearchInput\<close> and \<open>ResultList\<close>. The summary message is the
  localised string \<open>sourceSearch.resultsSummary1\<close> formatted with the result count; the
  view keeps the count it is formatted with.
\<close>

record ResultListProps =
  rl_items :: "ListItem list"
  rl_selected :: jsnum
  rl_big :: bool

record View =
  v_query :: string
  v_count :: int
  v_summaryMsg :: "int option"
  v_resultList :: "ResultListProps option"

definition render :: "Imports \<Rightarrow> Props \<Rightarrow> State \<Rightarrow> View option" where
  "render im p st =
     (if \<not> enabled p then None
      else
        (let showSummary = (isSourcesQuery p \<or> isSymbolSearch p \<or> isShortcutQuery p);
             newResults = map_option (take 100) (results st)
         in Some \<lparr>v_query = query p,
                  v_count = getResultCount st,
                  v_summaryMsg = (if showSummary then Some (getResultCount st) else None),
                  v_resultList =
                    map_option
                      (\<lambda>rs. \<lparr>rl_items = highlightMatching im p (query p) rs,
                             rl_selected = selectedIndex st,
                             rl_big = isSourceSearch p\<rparr>)
                      newResults\<rparr>))"

subsection \<open>The modal as a state machine\<close>

text \<open>
  What can happen to a mounted modal: React calls \<open>componentDidMount\<close> once and
  \<open>componentDidUpdate\<close> (with the previous props) after each render; the search input
  delivers \<open>onChange\<close> and \<open>onKeyDown\<close>; the result list delivers a click through
  \<open>selectItem\<close>; the modal's own close goes through \<open>handleClose\<close>. The props are the host's
  and may differ from one event to the next.
\<close>

datatype event =
    DidMount
  | DidUpdate Props
  | Change string
  | KeyDown string
  | SelectItem "QuickOpenResult option"
  | HandleClose

definition step :: "Imports \<Rightarrow> Props \<Rightarrow> event \<Rightarrow> State \<Rightarrow> (State \<times> effect list) result" where
  "step im p ev st =
     (case ev of
        DidMount \<Rightarrow> Inr (componentDidMount im p st, [])
      | DidUpdate prevProps \<Rightarrow> Inr (componentDidUpdate im prevProps p st)
      | Change v \<Rightarrow> Inr (onChange im p v st)
      | KeyDown key \<Rightarrow> onKeyDown im p key st
      | SelectItem item \<Rightarrow>
          (case selectResultItem im p item of Inl e \<Rightarrow> Inl e | Inr effs \<Rightarrow> Inr (st, effs))
      | HandleClose \<Rightarrow> Inr (st, closeModal))"

fun run :: "Imports \<Rightarrow> (Props \<times> event) list \<Rightarrow> State \<Rightarrow> State result" where
  "run im [] st = Inr st"
| "run im ((p, ev) # rest) st =
     (case step im p ev st of
        Inl e \<Rightarrow> Inl e
      | Inr (st', effs) \<Rightarrow> run im rest st')"

text \<open>The states the modal can be in: those a run of events reaches from the constructor's.\<close>

definition reachable :: "Imports \<Rightarrow> State \<Rightarrow> bool" where
  "reachable im st = (\<exists>trace. run im trace constructor = Inr st)"

text \<open>The selected index is an index of the array.\<close>

definition valid_index :: "QuickOpenResult list \<Rightarrow> jsnum \<Rightarrow> bool" where
  "valid_index rs i = (case i of Num k \<Rightarrow> 0 \<le> k \<and> k < int (length rs) | NaN \<Rightarrow> False)"

section \<open>The parser worker's dispatch table (worker entry point)\<close>

text \<open>
  The entry point imports sixteen functions and hands \<open>workerHandler\<close> (of devtools-utils)
  one object literal written with shorthand properties. An import binds a local name to
  an export of a module; a default import binds the export \<open>default\<close>.
\<close>

record ImportBinding =
  imp_local :: string
  imp_exported :: string
  imp_module :: string

definition named_import :: "string \<Rightarrow> string \<Rightarrow> ImportBinding" where
  "named_import n m = \<lparr>imp_local = n, imp_exported = n, imp_module = m\<rparr>"

definition default_import :: "string \<Rightarrow> string \<Rightarrow> ImportBinding" where
  "default_import n m = \<lparr>imp_local = n, imp_exported = ''default'', imp_module = m\<rparr>"

definition worker_imports :: "ImportBinding list" where
  "worker_imports =
     [named_import ''replaceOriginalVariableName'' ''devtools-map-bindings/src/utils'',
      named_import ''getClosestExpression'' ''./utils/closest'',
      named_import ''getVariablesInScope'' ''./scopes'',
      default_import ''getSymbols'' ''./getSymbols'',
      named_import ''clearSymbols'' ''./getSymbols'',
      named_import ''clearASTs'' ''./utils/ast'',
      default_import ''getScopes'' ''./getScopes'',
      named_import ''clearScopes'' ''./getScopes'',
      named_import ''hasSource'' ''./sources'',
      named_import ''setSource'' ''./sources'',
      named_import ''clearSources'' ''./sources'',
      default_import ''findOutOfScopeLocations'' ''./findOutOfScopeLocations'',
      named_import ''getNextStep'' ''./steps'',
      default_import ''getEmptyLines'' ''./getEmptyLines'',
      named_import ''hasSyntaxError'' ''./validate'',
      named_import ''isReactComponent'' ''./frameworks'',
      named_import ''workerUtils'' ''devtools-utils'']"

text \<open>An identifier of the module scope stands for the import that binds it.\<close>

definition resolve :: "string \<Rightarrow> ImportBinding option" where
  "resolve n = find (\<lambda>b. imp_local b = n) worker_imports"

text \<open>The shorthand property \<open>{ n }\<close> is the property \<open>n\<close> with the value of the identifier \<open>n\<close>.\<close>

definition shorthand :: "string \<Rightarrow> string \<times> ImportBinding option" where
  "shorthand n = (n, resolve n)"

definition publicInterface :: "(string \<times> ImportBinding option) list" where
  "publicInterface =
     [shorthand ''getClosestExpression'',
      shorthand ''findOutOfScopeLocations'',
      shorthand ''getSymbols'',
      shorthand ''getScopes'',
      shorthand ''clearSymbols'',
      shorthand ''clearScopes'',
      shorthand ''clearASTs'',
      shorthand ''hasSource'',
      shorthand ''setSource'',
      shorthand ''clearSources'',
      shorthand ''getVariablesInScope'',
      shorthand ''getNextStep'',
      shorthand ''getEmptyLines'',
      shorthand ''hasSyntaxError'',
      shorthand ''isReactComponent'',
      shorthand ''replaceOriginalVariableName'']"

text \<open>
  \<open>self.onmessage = workerHandler({...})\<close>, with the adapter of devtools-utils as a
  parameter.
\<close>

definition onmessage :: "((string \<times> ImportBinding option) list \<Rightarrow> 'h) \<Rightarrow> 'h" where
  "onmessage workerHandler = workerHandler publicInterface"

section \<open>Sample props and states\<close>

text \<open>
  Concrete inputs for the instances below. The imports are stand-ins: a filter that keeps
  the candidates whose key starts with the query, a parser that knows one query, the
  three shortcuts, and a grouping that reports no match.
\<close>

definition ex_source :: "string \<Rightarrow> QuickOpenResult" where
  "ex_source u = \<lparr>item_id = u, item_value = u, item_title = u, item_subtitle = Some u,
                   item_url = Some u, item_location = None\<rparr>"

definition ex_symbol :: "string \<Rightarrow> int \<Rightarrow> int \<Rightarrow> QuickOpenResult" where
  "ex_symbol n a b = \<lparr>item_id = n, item_value = n, item_title = n, item_subtitle = None,
                       item_url = None,
                       item_location = Some \<lparr>loc_start = \<lparr>pos_line = a, pos_column = 0\<rparr>,
                                             loc_end = \<lparr>pos_line = b, pos_column = 1\<rparr>\<rparr>\<rparr>"

definition ex_shortcut :: "string \<Rightarrow> QuickOpenResult" where
  "ex_shortcut s = \<lparr>item_id = s, item_value = s, item_title = s, item_subtitle = None,
                     item_url = None, item_location = None\<rparr>"

definition ex_imports :: Imports where
  "ex_imports =
     \<lparr>fuzzyAldrin_filter =
        (\<lambda>vals q key n. take n (filter (\<lambda>v. take (length q) (key v) = q) vals)),
      parseLineColumn =
        (\<lambda>q. if q = '':12''
              then Some \<lparr>goto_sourceId = None, goto_line = Some 12, goto_column = None\<rparr>
              else None),
      formatShortcutResults = [ex_shortcut ''@'', ex_shortcut ''#'', ex_shortcut '':''],
      groupFuzzyMatches = (\<lambda>s q. [FuzzyMiss s])\<rparr>"

definition ex_props :: Props where
  "ex_props =
     \<lparr>enabled = True,
      sources = [ex_source ''a.js'', ex_source ''b.js'', ex_source ''c.js''],
      selectedSource = Some \<lparr>src_id = ''s1'', src_text = Some ''let x;''\<rparr>,
      query = [],
      searchType = ''sources'',
      symbols = \<lparr>sym_functions = [ex_symbol ''f'' 1 3, ex_symbol ''g'' 5 8, ex_symbol ''h'' 10 12],
                 sym_variables = [ex_symbol ''x'' 2 2]\<rparr>,
      tabs = []\<rparr>"

definition ex_fun_props :: Props where
  "ex_fun_props = ex_props\<lparr>query := ''@'', searchType := ''functions''\<rparr>"

definition ex_var_props :: Props where
  "ex_var_props = ex_props\<lparr>query := ''#'', searchType := ''variables''\<rparr>"

definition ex_goto_props :: Props where
  "ex_goto_props = ex_props\<lparr>query := '':12'', searchType := ''goto''\<rparr>"

definition ex_shortcut_props :: Props where
  "ex_shortcut_props = ex_props\<lparr>query := ''?'', searchType := ''shortcuts''\<rparr>"

definition ex_tab_props :: Props where
  "ex_tab_props = ex_props\<lparr>tabs := [''c.js'', ''a.js'']\<rparr>"

definition ex_state3 :: State where
  "ex_state3 = \<lparr>results = Some (sources ex_props), selectedIndex = Num 2\<rparr>"

definition ex_shortcut_state :: State where
  "ex_shortcut_state = \<lparr>results = Some (formatShortcutResults ex_imports), selectedIndex = Num 1\<rparr>"

definition ex_fun_state :: State where
  "ex_fun_state = \<lparr>results = Some (sym_functions (symbols ex_props)), selectedIndex = Num 0\<rparr>"

definition ex_long_state :: State where
  "ex_long_state = \<lparr>results = Some (replicate 101 (ex_source ''a.js'')), selectedIndex = Num 0\<rparr>"

text \<open>
  Two runs of a mounted modal in functions mode (three functions listed): the arrow key
  moves the selection, then the query goes from \<open>@\<close> to \<open>#\<close> (one variable listed), in the
  first run through the host's props alone, in the second typed into the input.
\<close>

definition ex_trace_shrink :: "(Props \<times> event) list" where
  "ex_trace_shrink =
     [(ex_fun_props, DidMount),
      (ex_fun_props, KeyDown ''ArrowDown''),
      (ex_fun_props, KeyDown ''ArrowDown''),
      (ex_var_props, DidUpdate ex_fun_props)]"

definition ex_trace_change :: "(Props \<times> event) list" where
  "ex_trace_change =
     [(ex_fun_props, DidMount),
      (ex_fun_props, KeyDown ''ArrowDown''),
      (ex_fun_props, Change ''#''),
      (ex_var_props, DidUpdate ex_fun_props)]"

text \<open>A symbol list of 1001 functions, and a query in gotoSource mode.\<close>

definition ex_many_props :: Props where
  "ex_many_props =
     ex_fun_props\<lparr>symbols := \<lparr>sym_functions = replicate 1001 (ex_symbol ''f'' 1 3),
                               sym_variables = []\<rparr>\<rparr>"

definition ex_gotoSource_props :: Props where
  "ex_gotoSource_props = ex_props\<lparr>query := ''a:3'', searchType := ''gotoSource''\<rparr>"

section \<open>Properties of the modal\<close>

subsection \<open>Shared lemmas\<close>

lemmas mode_defs = isFunctionQuery_def isVariableQuery_def isSymbolSearch_def isGotoQuery_def
  isGotoSourceQuery_def isShortcutQuery_def isSourcesQuery_def isSourceSearch_def

lemmas ex_props_defs = ex_props_def ex_fun_props_def ex_var_props_def ex_goto_props_def
  ex_shortcut_props_def ex_tab_props_def

lemmas worker_defs = publicInterface_def shorthand_def resolve_def worker_imports_def
  named_import_def default_import_def

lemma setModifier_Some: "\<exists>effs. setModifier (Some it) = Inr effs"
  by (simp add: setModifier_def)

lemma selectResultItem_returns: "\<exists>effs. selectResultItem im p item = Inr effs"
  by (cases item) (simp_all add: selectResultItem_def setModifier_def Let_def)

lemma valid_index_iff: "valid_index rs i = (\<exists>k. i = Num k \<and> 0 \<le> k \<and> k < int (length rs))"
  by (cases i) (simp_all add: valid_index_def)

lemma onSelectResultItem_Some: "\<exists>effs. onSelectResultItem p (Some it) = Inr effs"
  by (simp add: onSelectResultItem_def split: option.splits)

text \<open>
  From a valid index, \<open>traverseResults\<close> returns normally and moves the index by one,
  wrapping at both ends.
\<close>

lemma traverse_valid:
  assumes "results st = Some rs" "selectedIndex st = Num i" "0 \<le> i" "i < int (length rs)"
    and "j = (i + (if key = ''ArrowUp'' then - 1 else 1) + int (length rs)) mod int (length rs)"
  shows "0 \<le> j \<and> j < int (length rs)
       \<and> (\<exists>effs. onSelectResultItem p (Some (rs ! nat j)) = Inr effs
             \<and> traverseResults p key st = Inr (st\<lparr>selectedIndex := Num j\<rparr>, effs))"
proof -
  define n where "n = int (length rs)"
  define d :: int where "d = (if key = ''ArrowUp'' then - 1 else 1)"
  have jd: "j = (i + d + n) mod n" using assms(5) by (simp add: d_def n_def)
  have n: "0 < n" unfolding n_def using assms(3,4) by linarith
  have d: "- 1 \<le> d" by (simp add: d_def)
  have cnt: "getResultCount st = n" using assms(1) by (simp add: getResultCount_def n_def)
  have "0 \<le> i + d + n" using assms(3) n d by linarith
  then have nx: "js_rem (js_add (js_add (selectedIndex st) (Num d)) (Num n)) (Num n) = Num j"
    using n assms(2) by (simp add: jd)
  have j: "0 \<le> j \<and> j < n" using n by (simp add: jd)
  then have ix: "js_index rs (Num j) = Some (rs ! nat j)" by (simp add: n_def)
  obtain effs where e: "onSelectResultItem p (Some (rs ! nat j)) = Inr effs"
    using onSelectResultItem_Some by blast
  have "traverseResults p key st = Inr (st\<lparr>selectedIndex := Num j\<rparr>, effs)"
    using assms(1) cnt nx ix e by (simp add: traverseResults_def Let_def d_def)
  with j e show ?thesis by (auto simp: n_def)
qed

lemma onKeyDown_arrow:
  assumes "enabled p \<or> isGotoQuery p" "results st = Some rs"
    "key = ''ArrowUp'' \<or> key = ''ArrowDown''"
  shows "onKeyDown im p key st = traverseResults p key st"
  using assms by (auto simp: onKeyDown_def)

subsection \<open>Arrow keys\<close>

text \<open>
  C3. On a non-empty result list of \<open>n\<close> items with the selected index \<open>i\<close> in \<open>[0, n-1]\<close>,
  a key event \<open>ArrowDown\<close> (delivered to the open modal: the modal is enabled, or the mode
  is goto) sets the selected index to \<open>(i + 1) mod n\<close> and \<open>ArrowUp\<close> sets it to
  \<open>(i - 1 + n) mod n\<close>; so \<open>ArrowUp\<close> at \<open>0\<close> gives \<open>n - 1\<close> and \<open>ArrowDown\<close> at \<open>n - 1\<close>
  gives \<open>0\<close>. The handler returns normally and changes nothing else of the state.
\<close>

theorem arrow_keys_wrap:
  assumes "results st = Some rs" and "selectedIndex st = Num i"
    and "0 \<le> i" and "i < int (length rs)" and "enabled p \<or> isGotoQuery p"
  shows "(\<exists>effs. onKeyDown im p ''ArrowDown'' st =
            Inr (st\<lparr>selectedIndex := Num ((i + 1) mod int (length rs))\<rparr>, effs))
       \<and> (\<exists>effs. onKeyDown im p ''ArrowUp'' st =
            Inr (st\<lparr>selectedIndex := Num ((i - 1 + int (length rs)) mod int (length rs))\<rparr>, effs))
       \<and> (i = 0 \<longrightarrow> (i - 1 + int (length rs)) mod int (length rs) = int (length rs) - 1)
       \<and> (i = int (length rs) - 1 \<longrightarrow> (i + 1) mod int (length rs) = 0)"
proof (intro conjI)
  show "\<exists>effs. onKeyDown im p ''ArrowDown'' st =
          Inr (st\<lparr>selectedIndex := Num ((i + 1) mod int (length rs))\<rparr>, effs)"
    using traverse_valid [OF assms(1-4) refl, of "''ArrowDown''" p]
      onKeyDown_arrow [OF assms(5) assms(1), of "''ArrowDown''" im]
    by auto
  show "\<exists>effs. onKeyDown im p ''ArrowUp'' st =
          Inr (st\<lparr>selectedIndex := Num ((i - 1 + int (length rs)) mod int (length rs))\<rparr>, effs)"
    using traverse_valid [OF assms(1-4) refl, of "''ArrowUp''" p]
      onKeyDown_arrow [OF assms(5) assms(1), of "''ArrowUp''" im]
    by auto
  show "i = 0 \<longrightarrow> (i - 1 + int (length rs)) mod int (length rs) = int (length rs) - 1"
  proof
    assume z: "i = 0"
    define n where "n = int (length rs)"
    have "0 \<le> n - 1" and "n - 1 < n" unfolding n_def using assms(4) z by linarith+
    then have "(n - 1) mod n = n - 1" by (rule mod_pos_pos_trivial)
    then show "(i - 1 + int (length rs)) mod int (length rs) = int (length rs) - 1"
      using z by (simp add: n_def)
  qed
  show "i = int (length rs) - 1 \<longrightarrow> (i + 1) mod int (length rs) = 0"
    by simp
qed

theorem arrow_keys_wrap_witness:
  "results ex_state3 = Some (sources ex_props) \<and> selectedIndex ex_state3 = Num 2
   \<and> (0::int) \<le> 2 \<and> 2 < int (length (sources ex_props)) \<and> enabled ex_props
   \<and> (\<exists>effs. onKeyDown ex_imports ex_props ''ArrowDown'' ex_state3 =
         Inr (ex_state3\<lparr>selectedIndex := Num 0\<rparr>, effs))
   \<and> (\<exists>effs. onKeyDown ex_imports ex_props ''ArrowUp'' ex_state3 =
         Inr (ex_state3\<lparr>selectedIndex := Num 1\<rparr>, effs))"
proof -
  have h1: "results ex_state3 = Some (sources ex_props)" by (simp add: ex_state3_def)
  have h2: "selectedIndex ex_state3 = Num 2" by (simp add: ex_state3_def)
  have h3: "(0::int) \<le> 2" by simp
  have h4: "2 < int (length (sources ex_props))" by (simp add: ex_props_def)
  have h5: "enabled ex_props \<or> isGotoQuery ex_props" by (simp add: ex_props_def)
  have len: "int (length (sources ex_props)) = 3" by (simp add: ex_props_def)
  show ?thesis
    using arrow_keys_wrap [OF h1 h2 h3 h4 h5, of ex_imports] h1 h2 h4 h5 len
    by (simp add: ex_props_def)
qed

text \<open>A key event on a valid index returns normally and leaves a valid index.\<close>

lemma onKeyDown_keeps_valid:
  assumes "results st = Some rs" and "valid_index rs (selectedIndex st)"
  shows "\<exists>st' effs. onKeyDown im p key st = Inr (st', effs) \<and> results st' = Some rs
            \<and> valid_index rs (selectedIndex st')"
proof -
  obtain k where k: "selectedIndex st = Num k" "0 \<le> k" "k < int (length rs)"
    using assms(2) valid_index_iff by blast
  define x where "x = rs ! nat k"
  have ix: "js_index rs (selectedIndex st) = Some x" using k by (simp add: x_def)
  have eq: "onKeyDown im p key st =
     (if \<not> isGotoQuery p \<and> \<not> enabled p then Inr (st, [])
      else if key = ''Enter'' \<and> isGotoQuery p then
        Inr (st, gotoLocation p (parseLineColumn im (query p)))
      else if key = ''Enter'' then
        (case (if isShortcutQuery p then setModifier (Some x)
               else selectResultItem im p (Some x)) of
           Inl e \<Rightarrow> Inl e
         | Inr effs \<Rightarrow> Inr (st, effs))
      else if key = ''Tab'' then Inr (st, closeModal)
      else if key \<in> set [''ArrowUp'', ''ArrowDown''] then traverseResults p key st
      else Inr (st, []))"
    by (simp add: onKeyDown_def assms(1) ix)
  obtain e1 where e1: "setModifier (Some x) = Inr e1"
    using setModifier_Some by blast
  obtain e2 where e2: "selectResultItem im p (Some x) = Inr e2"
    using selectResultItem_returns by blast
  define j where
    "j = (k + (if key = ''ArrowUp'' then - 1 else 1) + int (length rs)) mod int (length rs)"
  obtain e3 where j: "0 \<le> j" "j < int (length rs)"
    and e3: "traverseResults p key st = Inr (st\<lparr>selectedIndex := Num j\<rparr>, e3)"
    using traverse_valid [OF assms(1) k j_def, of p] by blast
  have v: "valid_index rs (Num j)" using j by (simp add: valid_index_def)
  show ?thesis
    unfolding eq using assms e1 e2 e3 v by simp
qed

text \<open>The steps of the two sample runs.\<close>

lemma ex_mount: "step ex_imports ex_fun_props DidMount constructor =
    Inr (\<lparr>results = Some (sym_functions (symbols ex_props)), selectedIndex = Num 0\<rparr>, [])"
  by (simp add: step_def componentDidMount_def updateResults_def searchSymbols_def mode_defs
      ex_props_defs constructor_def)

lemma ex_down:
  assumes "k = 0 \<or> k = 1"
  shows "\<exists>effs. step ex_imports ex_fun_props (KeyDown ''ArrowDown'')
     \<lparr>results = Some (sym_functions (symbols ex_props)), selectedIndex = Num k\<rparr> =
    Inr (\<lparr>results = Some (sym_functions (symbols ex_props)), selectedIndex = Num (k + 1)\<rparr>, effs)"
  using assms
  by (auto simp add: step_def onKeyDown_def traverseResults_def getResultCount_def Let_def
      onSelectResultItem_def mode_defs ex_props_defs)

lemma ex_update: "step ex_imports ex_var_props (DidUpdate ex_fun_props)
     \<lparr>results = Some (sym_functions (symbols ex_props)), selectedIndex = Num k\<rparr> =
    Inr (\<lparr>results = Some [ex_symbol ''x'' 2 2], selectedIndex = Num k\<rparr>, [ScrollList (Num k)])"
  by (simp add: step_def componentDidUpdate_def updateResults_def searchSymbols_def mode_defs
      ex_props_defs Let_def)

lemma ex_change: "step ex_imports ex_fun_props (Change ''#'')
     \<lparr>results = Some (sym_functions (symbols ex_props)), selectedIndex = Num k\<rparr> =
    Inr (\<lparr>results = Some (sym_functions (symbols ex_props)), selectedIndex = Num k\<rparr>,
         [SetQuickOpenQuery ''#''])"
  by (simp add: step_def onChange_def noSource_def updateResults_def searchSymbols_def mode_defs
      ex_props_defs Let_def)

subsection \<open>Bare sigils\<close>

text \<open>
  C4, as stated, fails: the list is chosen by the search mode of the props, not by the
  sigil. In functions mode the query \<open>#\<close> (typed over \<open>@\<close>: \<open>onChange\<close> runs with the props
  of before the change) sets the results to the functions list, which is not the variables
  list; likewise \<open>@\<close> in variables mode sets them to the variables list.
\<close>

theorem bare_sigil_counterexample:
  "results (updateResults ex_imports ex_fun_props ''#'' constructor)
     = Some (sym_functions (symbols ex_fun_props))
   \<and> sym_functions (symbols ex_fun_props) \<noteq> sym_variables (symbols ex_fun_props)
   \<and> results (updateResults ex_imports ex_var_props ''@'' constructor)
     = Some (sym_variables (symbols ex_var_props))
   \<and> sym_variables (symbols ex_var_props) \<noteq> sym_functions (symbols ex_var_props)"
  by (simp add: updateResults_def searchSymbols_def mode_defs ex_props_defs constructor_def)

text \<open>
  C4, amended. When the query is exactly \<open>@\<close> or \<open>#\<close>, updating the results sets the result
  list to the full, unfiltered list of the search mode: the functions list in functions
  mode, the variables list in variables mode, whichever of the two sigils the query is.
  The selected index is left as it was.
\<close>

theorem bare_sigil_gives_mode_list:
  assumes "q = ''@'' \<or> q = ''#''"
  shows "(isFunctionQuery p \<longrightarrow>
            results (updateResults im p q st) = Some (sym_functions (symbols p)))
       \<and> (isVariableQuery p \<longrightarrow>
            results (updateResults im p q st) = Some (sym_variables (symbols p)))
       \<and> (isSymbolSearch p \<longrightarrow> selectedIndex (updateResults im p q st) = selectedIndex st)"
  using assms by (auto simp: updateResults_def searchSymbols_def mode_defs)

theorem bare_sigil_gives_mode_list_witness:
  "isFunctionQuery ex_fun_props \<and> isVariableQuery ex_var_props
   \<and> results (updateResults ex_imports ex_fun_props ''@'' constructor)
       = Some [ex_symbol ''f'' 1 3, ex_symbol ''g'' 5 8, ex_symbol ''h'' 10 12]
   \<and> results (updateResults ex_imports ex_var_props ''#'' constructor) = Some [ex_symbol ''x'' 2 2]"
proof -
  have f: "isFunctionQuery ex_fun_props" by (simp add: mode_defs ex_props_defs)
  have v: "isVariableQuery ex_var_props" by (simp add: mode_defs ex_props_defs)
  have a: "''@'' = ''@'' \<or> ''@'' = ''#''" by simp
  have b: "''#'' = ''@'' \<or> ''#'' = ''#''" by simp
  show ?thesis
    using bare_sigil_gives_mode_list [OF a, of ex_fun_props ex_imports constructor]
      bare_sigil_gives_mode_list [OF b, of ex_var_props ex_imports constructor] f v
    by (simp add: ex_props_defs)
qed

subsection \<open>The empty query\<close>

text \<open>
  C5. For an empty query (in any mode but goto, whose check comes first and leaves the
  results alone): with at least one tab open, the result list is the source list filtered
  to the sources whose url is among the tabs, in the order of the source list; with no tab
  open, it is the first 100 sources in their order, the whole list when it has at most
  100.
\<close>

theorem empty_query_top_sources:
  assumes "\<not> isGotoQuery p"
  shows "results (updateResults im p [] st) =
           Some (if tabs p \<noteq> []
                 then filter (\<lambda>s. \<exists>u. item_url s = Some u \<and> u \<in> set (tabs p)) (sources p)
                 else take 100 (sources p))
       \<and> (tabs p = [] \<and> length (sources p) \<le> 100 \<longrightarrow>
            results (updateResults im p [] st) = Some (sources p))"
proof -
  have "tabs_include (tabs p) = (\<lambda>s. \<exists>u. item_url s = Some u \<and> u \<in> set (tabs p))"
    by (auto simp: tabs_include_def fun_eq_iff split: option.splits)
  then show ?thesis
    using assms by (simp add: updateResults_def showTopSources_def)
qed

theorem empty_query_top_sources_witness:
  "\<not> isGotoQuery ex_tab_props \<and> \<not> isGotoQuery ex_props
   \<and> results (updateResults ex_imports ex_tab_props [] constructor)
       = Some [ex_source ''a.js'', ex_source ''c.js'']
   \<and> results (updateResults ex_imports ex_props [] constructor)
       = Some [ex_source ''a.js'', ex_source ''b.js'', ex_source ''c.js'']"
proof -
  have g1: "\<not> isGotoQuery ex_tab_props" by (simp add: mode_defs ex_props_defs)
  have g2: "\<not> isGotoQuery ex_props" by (simp add: mode_defs ex_props_defs)
  have t1: "tabs ex_tab_props = [''c.js'', ''a.js'']" by (simp add: ex_props_defs)
  have s1: "sources ex_tab_props = [ex_source ''a.js'', ex_source ''b.js'', ex_source ''c.js'']"
    by (simp add: ex_props_defs)
  have t2: "tabs ex_props = []" by (simp add: ex_props_defs)
  have s2: "sources ex_props = [ex_source ''a.js'', ex_source ''b.js'', ex_source ''c.js'']"
    by (simp add: ex_props_defs)
  have r1: "results (updateResults ex_imports ex_tab_props [] constructor)
              = Some [ex_source ''a.js'', ex_source ''c.js'']"
    using empty_query_top_sources [OF g1, of ex_imports constructor, THEN conjunct1]
    unfolding t1 s1 by (simp add: ex_source_def)
  have r2: "results (updateResults ex_imports ex_props [] constructor)
              = Some [ex_source ''a.js'', ex_source ''b.js'', ex_source ''c.js'']"
    using empty_query_top_sources [OF g2, of ex_imports constructor, THEN conjunct1]
    unfolding t2 s2 by simp
  show ?thesis using g1 g2 r1 r2 by blast
qed

subsection \<open>Shortcut items\<close>

text \<open>
  C8. In shortcuts mode, selecting a result item whose id is \<open>@\<close>, \<open>#\<close> or \<open>:\<close>, by a click
  (\<open>selectItem\<close>) or by Enter on the open modal with that item selected, calls
  \<open>setQuickOpenQuery\<close> with the id and does nothing else: the state is unchanged, the modal
  is not closed and \<open>selectLocation\<close> is not called.
\<close>

theorem shortcut_item_sets_query:
  assumes "isShortcutQuery p"
    and "item_id it = ''@'' \<or> item_id it = ''#'' \<or> item_id it = '':''"
  shows "step im p (SelectItem (Some it)) st = Inr (st, [SetQuickOpenQuery (item_id it)])
       \<and> (enabled p \<and> results st = Some rs \<and> js_index rs (selectedIndex st) = Some it \<longrightarrow>
            step im p (KeyDown ''Enter'') st = Inr (st, [SetQuickOpenQuery (item_id it)]))"
  using assms
  by (auto simp: step_def selectResultItem_def setModifier_def onKeyDown_def mode_defs)

theorem shortcut_item_sets_query_witness:
  "isShortcutQuery ex_shortcut_props \<and> item_id (ex_shortcut ''#'') = ''#''
   \<and> enabled ex_shortcut_props
   \<and> results ex_shortcut_state = Some (formatShortcutResults ex_imports)
   \<and> js_index (formatShortcutResults ex_imports) (selectedIndex ex_shortcut_state)
       = Some (ex_shortcut ''#'')
   \<and> step ex_imports ex_shortcut_props (SelectItem (Some (ex_shortcut ''#''))) ex_shortcut_state
       = Inr (ex_shortcut_state, [SetQuickOpenQuery ''#''])
   \<and> step ex_imports ex_shortcut_props (KeyDown ''Enter'') ex_shortcut_state
       = Inr (ex_shortcut_state, [SetQuickOpenQuery ''#''])"
proof -
  have m: "isShortcutQuery ex_shortcut_props" by (simp add: mode_defs ex_props_defs)
  have i: "item_id (ex_shortcut ''#'') = ''@'' \<or> item_id (ex_shortcut ''#'') = ''#''
           \<or> item_id (ex_shortcut ''#'') = '':''" by (simp add: ex_shortcut_def)
  have e: "enabled ex_shortcut_props" by (simp add: ex_props_defs)
  have r: "results ex_shortcut_state = Some (formatShortcutResults ex_imports)"
    by (simp add: ex_shortcut_state_def)
  have j: "js_index (formatShortcutResults ex_imports) (selectedIndex ex_shortcut_state)
             = Some (ex_shortcut ''#'')"
    by (simp add: ex_shortcut_state_def ex_imports_def)
  show ?thesis
    using shortcut_item_sets_query [OF m i, of ex_imports ex_shortcut_state
        "formatShortcutResults ex_imports"] m e r j
    by (simp add: ex_shortcut_def)
qed

subsection \<open>The selected index and the result list\<close>

text \<open>
  C1, as stated, fails: recomputing the results never writes the selected index. After
  two ArrowDown on three functions the index is \<open>2\<close>; the query then changes to \<open>#\<close> and
  the results become the single variable, with the index still \<open>2\<close>.
\<close>

theorem index_validity_counterexample:
  "run ex_imports ex_trace_shrink constructor =
     Inr \<lparr>results = Some [ex_symbol ''x'' 2 2], selectedIndex = Num 2\<rparr>
   \<and> reachable ex_imports \<lparr>results = Some [ex_symbol ''x'' 2 2], selectedIndex = Num 2\<rparr>
   \<and> [ex_symbol ''x'' 2 2] \<noteq> []
   \<and> \<not> valid_index [ex_symbol ''x'' 2 2] (Num 2)"
proof -
  obtain e1 where s1: "step ex_imports ex_fun_props (KeyDown ''ArrowDown'')
     \<lparr>results = Some (sym_functions (symbols ex_props)), selectedIndex = Num 0\<rparr> =
    Inr (\<lparr>results = Some (sym_functions (symbols ex_props)), selectedIndex = Num 1\<rparr>, e1)"
    using ex_down [of 0] by auto
  obtain e2 where s2: "step ex_imports ex_fun_props (KeyDown ''ArrowDown'')
     \<lparr>results = Some (sym_functions (symbols ex_props)), selectedIndex = Num 1\<rparr> =
    Inr (\<lparr>results = Some (sym_functions (symbols ex_props)), selectedIndex = Num 2\<rparr>, e2)"
    using ex_down [of 1] by auto
  have r: "run ex_imports ex_trace_shrink constructor =
     Inr \<lparr>results = Some [ex_symbol ''x'' 2 2], selectedIndex = Num 2\<rparr>"
    by (simp add: ex_trace_shrink_def ex_mount s1 s2 ex_update)
  then have "reachable ex_imports \<lparr>results = Some [ex_symbol ''x'' 2 2], selectedIndex = Num 2\<rparr>"
    unfolding reachable_def by blast
  with r show ?thesis by (simp add: valid_index_def)
qed

text \<open>
  C1, amended. The constructor's state has no results and the index \<open>0\<close>. A key event on
  a state whose selected index is a valid index of its results returns normally, leaves
  the results as they are and leaves a valid index. Recomputing the results
  (\<open>updateResults\<close>, on mount, update and change) leaves the selected index as it was, so
  nothing makes it valid for the new list. When the results are null and the mode is not
  goto, a key event leaves the state unchanged and calls nothing.
\<close>

theorem key_events_keep_index_valid:
  assumes "results st = Some rs" and "valid_index rs (selectedIndex st)"
  shows "(\<exists>st' effs. onKeyDown im p key st = Inr (st', effs) \<and> results st' = Some rs
            \<and> valid_index rs (selectedIndex st'))
       \<and> selectedIndex (updateResults im p' q st) = selectedIndex st
       \<and> results constructor = None \<and> selectedIndex constructor = Num 0
       \<and> (results st0 = None \<and> \<not> isGotoQuery p \<longrightarrow> onKeyDown im p key st0 = Inr (st0, []))"
proof (intro conjI)
  show "\<exists>st' effs. onKeyDown im p key st = Inr (st', effs) \<and> results st' = Some rs
            \<and> valid_index rs (selectedIndex st')"
    using onKeyDown_keeps_valid [OF assms] .
  show "selectedIndex (updateResults im p' q st) = selectedIndex st"
    by (simp add: updateResults_def showTopSources_def searchSymbols_def searchShortcuts_def
        searchSources_def Let_def)
  show "results constructor = None" "selectedIndex constructor = Num 0"
    by (simp_all add: constructor_def)
  show "results st0 = None \<and> \<not> isGotoQuery p \<longrightarrow> onKeyDown im p key st0 = Inr (st0, [])"
    by (simp add: onKeyDown_def)
qed

theorem key_events_keep_index_valid_witness:
  "results ex_state3 = Some (sources ex_props)
   \<and> valid_index (sources ex_props) (selectedIndex ex_state3)
   \<and> (\<exists>st' effs. onKeyDown ex_imports ex_props ''ArrowDown'' ex_state3 = Inr (st', effs)
         \<and> results st' = Some (sources ex_props)
         \<and> valid_index (sources ex_props) (selectedIndex st'))
   \<and> selectedIndex (updateResults ex_imports ex_var_props ''#'' ex_state3) = Num 2
   \<and> results constructor = None \<and> \<not> isGotoQuery ex_props
   \<and> onKeyDown ex_imports ex_props ''ArrowDown'' constructor = Inr (constructor, [])"
proof -
  have h1: "results ex_state3 = Some (sources ex_props)" by (simp add: ex_state3_def)
  have h2: "valid_index (sources ex_props) (selectedIndex ex_state3)"
    by (simp add: ex_state3_def valid_index_def ex_props_def)
  have h3: "results constructor = None" by (simp add: constructor_def)
  have h4: "\<not> isGotoQuery ex_props" by (simp add: mode_defs ex_props_def)
  have h5: "selectedIndex ex_state3 = Num 2" by (simp add: ex_state3_def)
  show ?thesis
    using key_events_keep_index_valid [OF h1 h2, of ex_imports ex_props "''ArrowDown''"
        ex_var_props "''#''" constructor] h1 h2 h3 h4 h5
    by simp
qed

text \<open>
  C2, as stated, fails: no operation writes \<open>0\<close> to the selected index after the
  constructor. With three functions listed and the second selected, \<open>#\<close> is typed over
  \<open>@\<close>: the change and the update that follows recompute the results (now the single
  variable) and the index is still \<open>1\<close>.
\<close>

theorem index_reset_counterexample:
  "run ex_imports ex_trace_change constructor =
     Inr \<lparr>results = Some [ex_symbol ''x'' 2 2], selectedIndex = Num 1\<rparr>
   \<and> Num 1 \<noteq> Num 0"
proof -
  obtain e1 where s1: "step ex_imports ex_fun_props (KeyDown ''ArrowDown'')
     \<lparr>results = Some (sym_functions (symbols ex_props)), selectedIndex = Num 0\<rparr> =
    Inr (\<lparr>results = Some (sym_functions (symbols ex_props)), selectedIndex = Num 1\<rparr>, e1)"
    using ex_down [of 0] by auto
  show ?thesis
    by (simp add: ex_trace_change_def ex_mount s1 ex_change ex_update)
qed

text \<open>
  C2, amended. When the query changes or the modal becomes enabled, \<open>componentDidUpdate\<close>
  recomputes the result list from the current props with \<open>updateResults\<close> (which leaves it
  alone in goto mode), and otherwise leaves the state as it is; a change of the mode or of
  the result count alone recomputes nothing. Mount, update and change all leave the
  selected index as it was: it is not reset to \<open>0\<close>.
\<close>

theorem recomputation_keeps_index:
  "selectedIndex (fst (componentDidUpdate im prevProps p st)) = selectedIndex st
   \<and> selectedIndex (fst (onChange im p v st)) = selectedIndex st
   \<and> selectedIndex (componentDidMount im p st) = selectedIndex st
   \<and> fst (componentDidUpdate im prevProps p st) =
       (if (\<not> enabled prevProps \<and> enabled p) \<or> query prevProps \<noteq> query p
        then updateResults im p (query p) st else st)"
proof -
  have u: "selectedIndex (updateResults im p q st) = selectedIndex st" for q
    by (simp add: updateResults_def showTopSources_def searchSymbols_def searchShortcuts_def
        searchSources_def Let_def)
  show ?thesis
    by (simp add: componentDidUpdate_def onChange_def componentDidMount_def u Let_def)
qed

theorem recomputation_keeps_index_witness:
  "selectedIndex (fst (componentDidUpdate ex_imports ex_fun_props ex_var_props ex_state3)) = Num 2
   \<and> results (fst (componentDidUpdate ex_imports ex_fun_props ex_var_props ex_state3))
       = Some [ex_symbol ''x'' 2 2]"
proof -
  have "updateResults ex_imports ex_var_props (query ex_var_props) ex_state3
          = ex_state3\<lparr>results := Some [ex_symbol ''x'' 2 2]\<rparr>"
    by (simp add: updateResults_def searchSymbols_def mode_defs ex_props_defs)
  moreover have "query ex_fun_props \<noteq> query ex_var_props" by (simp add: ex_props_defs)
  moreover have "selectedIndex ex_state3 = Num 2" by (simp add: ex_state3_def)
  ultimately show ?thesis
    using recomputation_keeps_index [of ex_imports ex_fun_props ex_var_props ex_state3]
    by simp
qed

subsection \<open>Arrow keys in goto mode without results\<close>

text \<open>
  C6, at its failing input. In goto mode the guard of \<open>onKeyDown\<close> lets every key through,
  so with null results an arrow key reaches \<open>traverseResults\<close>, where the result count is
  \<open>0\<close> and the remainder by it is \<open>NaN\<close>: the handler returns normally, calls nothing, and
  the selected index is \<open>NaN\<close> afterwards, whatever it was. The claim has the state
  unchanged there.
\<close>

theorem goto_arrow_on_null_results:
  assumes "isGotoQuery p" and "results st = None"
    and "key = ''ArrowUp'' \<or> key = ''ArrowDown''"
  shows "onKeyDown im p key st = Inr (st\<lparr>selectedIndex := NaN\<rparr>, [])"
proof -
  have "js_rem x (Num 0) = NaN" for x by (cases x) simp_all
  then show ?thesis
    using assms by (auto simp: onKeyDown_def traverseResults_def getResultCount_def Let_def)
qed

theorem goto_arrow_on_null_results_witness:
  "isGotoQuery ex_goto_props \<and> results constructor = None
   \<and> selectedIndex constructor = Num 0
   \<and> onKeyDown ex_imports ex_goto_props ''ArrowDown'' constructor
       = Inr (\<lparr>results = None, selectedIndex = NaN\<rparr>, [])"
proof -
  have g: "isGotoQuery ex_goto_props" by (simp add: mode_defs ex_props_defs)
  have r: "results constructor = None" by (simp add: constructor_def)
  have k: "''ArrowDown'' = ''ArrowUp'' \<or> ''ArrowDown'' = ''ArrowDown''" by simp
  show ?thesis
    using goto_arrow_on_null_results [OF g r k, of ex_imports] g
    by (simp add: constructor_def)
qed

subsection \<open>Callbacks on traversal and on a query change\<close>

text \<open>
  C7, as stated, fails: a query change calls neither \<open>highlightLineRange\<close> nor
  \<open>selectLocation\<close>. In functions mode with a source loaded and the functions listed, the
  change of the query to \<open>@g\<close> calls \<open>setQuickOpenQuery\<close> alone, and the update that follows
  the new props only scrolls the list.
\<close>

theorem query_change_effects_counterexample:
  "isFunctionQuery ex_fun_props
   \<and> selectedSource ex_fun_props = Some \<lparr>src_id = ''s1'', src_text = Some ''let x;''\<rparr>
   \<and> onChange ex_imports ex_fun_props ''@g'' ex_fun_state
       = (\<lparr>results = Some [ex_symbol ''g'' 5 8], selectedIndex = Num 0\<rparr>, [SetQuickOpenQuery ''@g''])
   \<and> componentDidUpdate ex_imports ex_fun_props (ex_fun_props\<lparr>query := ''@g''\<rparr>) ex_fun_state
       = (\<lparr>results = Some [ex_symbol ''g'' 5 8], selectedIndex = Num 0\<rparr>, [ScrollList (Num 0)])"
  by (simp add: onChange_def componentDidUpdate_def noSource_def updateResults_def
      searchSymbols_def filter_values_def mode_defs ex_props_defs ex_fun_state_def ex_imports_def
      ex_symbol_def Let_def)

text \<open>
  C7, amended. The two callbacks belong to arrow-key traversal, not to a query change.
  An arrow key on the open modal, from a valid index, moves the index to some \<open>j\<close> and,
  for the item now selected: in variables mode calls \<open>selectLocation\<close> with the selected
  source's id, the item's start line (\<open>0\<close> when it has no location) and a null column; in
  functions mode calls \<open>highlightLineRange\<close> with the selected source's id and the item's
  start and end lines (no range when it has no location); and calls nothing when no source
  is selected or the mode is no symbol mode. A change of the input's value calls
  \<open>setQuickOpenQuery\<close> with the value and nothing else.
\<close>

theorem traversal_emits_symbol_effects:
  assumes "results st = Some rs" and "valid_index rs (selectedIndex st)" and "enabled p"
    and "key = ''ArrowUp'' \<or> key = ''ArrowDown''"
  shows "(\<exists>j. 0 \<le> j \<and> j < int (length rs)
          \<and> onKeyDown im p key st =
              Inr (st\<lparr>selectedIndex := Num j\<rparr>,
                   (case selectedSource p of
                      None \<Rightarrow> []
                    | Some s \<Rightarrow>
                        if isVariableQuery p then
                          [SelectLocation (src_id s)
                             (Some (case item_location (rs ! nat j) of
                                      None \<Rightarrow> 0
                                    | Some l \<Rightarrow> pos_line (loc_start l))) None]
                        else if isFunctionQuery p then
                          [HighlightLineRange
                             (case item_location (rs ! nat j) of
                                None \<Rightarrow> None
                              | Some l \<Rightarrow> Some (pos_line (loc_start l), pos_line (loc_end l)))
                             (src_id s)]
                        else [])))
       \<and> snd (onChange im p v st) = [SetQuickOpenQuery v]"
proof
  obtain k where k: "selectedIndex st = Num k" "0 \<le> k" "k < int (length rs)"
    using assms(2) valid_index_iff by blast
  define j where
    "j = (k + (if key = ''ArrowUp'' then - 1 else 1) + int (length rs)) mod int (length rs)"
  obtain effs where j: "0 \<le> j" "j < int (length rs)"
    and e: "onSelectResultItem p (Some (rs ! nat j)) = Inr effs"
    and t: "traverseResults p key st = Inr (st\<lparr>selectedIndex := Num j\<rparr>, effs)"
    using traverse_valid [OF assms(1) k j_def, of p] by blast
  have kd: "onKeyDown im p key st = traverseResults p key st"
    using onKeyDown_arrow [of p st rs key im] assms by simp
  have "effs = (case selectedSource p of
                      None \<Rightarrow> []
                    | Some s \<Rightarrow>
                        if isVariableQuery p then
                          [SelectLocation (src_id s)
                             (Some (case item_location (rs ! nat j) of
                                      None \<Rightarrow> 0
                                    | Some l \<Rightarrow> pos_line (loc_start l))) None]
                        else if isFunctionQuery p then
                          [HighlightLineRange
                             (case item_location (rs ! nat j) of
                                None \<Rightarrow> None
                              | Some l \<Rightarrow> Some (pos_line (loc_start l), pos_line (loc_end l)))
                             (src_id s)]
                        else [])"
    using e
    by (auto simp: onSelectResultItem_def start_line_def isSymbolSearch_def
        split: option.splits if_splits)
  with t kd j show "\<exists>j. 0 \<le> j \<and> j < int (length rs)
          \<and> onKeyDown im p key st =
              Inr (st\<lparr>selectedIndex := Num j\<rparr>,
                   (case selectedSource p of
                      None \<Rightarrow> []
                    | Some s \<Rightarrow>
                        if isVariableQuery p then
                          [SelectLocation (src_id s)
                             (Some (case item_location (rs ! nat j) of
                                      None \<Rightarrow> 0
                                    | Some l \<Rightarrow> pos_line (loc_start l))) None]
                        else if isFunctionQuery p then
                          [HighlightLineRange
                             (case item_location (rs ! nat j) of
                                None \<Rightarrow> None
                              | Some l \<Rightarrow> Some (pos_line (loc_start l), pos_line (loc_end l)))
                             (src_id s)]
                        else []))"
    by auto
  show "snd (onChange im p v st) = [SetQuickOpenQuery v]"
    by (simp add: onChange_def)
qed

theorem traversal_emits_symbol_effects_witness:
  "results ex_fun_state = Some (sym_functions (symbols ex_props))
   \<and> valid_index (sym_functions (symbols ex_props)) (selectedIndex ex_fun_state)
   \<and> enabled ex_fun_props
   \<and> onKeyDown ex_imports ex_fun_props ''ArrowDown'' ex_fun_state
       = Inr (ex_fun_state\<lparr>selectedIndex := Num 1\<rparr>, [HighlightLineRange (Some (5, 8)) ''s1''])
   \<and> onKeyDown ex_imports ex_var_props ''ArrowDown'' ex_fun_state
       = Inr (ex_fun_state\<lparr>selectedIndex := Num 1\<rparr>, [SelectLocation ''s1'' (Some 5) None])
   \<and> onKeyDown ex_imports (ex_fun_props\<lparr>selectedSource := None\<rparr>) ''ArrowDown'' ex_fun_state
       = Inr (ex_fun_state\<lparr>selectedIndex := Num 1\<rparr>, [])
   \<and> snd (onChange ex_imports ex_fun_props ''@g'' ex_fun_state) = [SetQuickOpenQuery ''@g'']"
proof -
  have h1: "results ex_fun_state = Some (sym_functions (symbols ex_props))"
    by (simp add: ex_fun_state_def)
  have h2: "valid_index (sym_functions (symbols ex_props)) (selectedIndex ex_fun_state)"
    by (simp add: ex_fun_state_def valid_index_def ex_props_def)
  have h3: "enabled ex_fun_props" by (simp add: ex_props_defs)
  have k: "''ArrowDown'' = ''ArrowUp'' \<or> ''ArrowDown'' = ''ArrowDown''" by simp
  have a: "onKeyDown ex_imports ex_fun_props ''ArrowDown'' ex_fun_state
       = Inr (ex_fun_state\<lparr>selectedIndex := Num 1\<rparr>, [HighlightLineRange (Some (5, 8)) ''s1''])"
    by (simp add: onKeyDown_def traverseResults_def getResultCount_def onSelectResultItem_def
        mode_defs ex_props_defs ex_fun_state_def ex_symbol_def Let_def)
  have b: "onKeyDown ex_imports ex_var_props ''ArrowDown'' ex_fun_state
       = Inr (ex_fun_state\<lparr>selectedIndex := Num 1\<rparr>, [SelectLocation ''s1'' (Some 5) None])"
    by (simp add: onKeyDown_def traverseResults_def getResultCount_def onSelectResultItem_def
        start_line_def mode_defs ex_props_defs ex_fun_state_def ex_symbol_def Let_def)
  have c: "onKeyDown ex_imports (ex_fun_props\<lparr>selectedSource := None\<rparr>) ''ArrowDown'' ex_fun_state
       = Inr (ex_fun_state\<lparr>selectedIndex := Num 1\<rparr>, [])"
    by (simp add: onKeyDown_def traverseResults_def getResultCount_def onSelectResultItem_def
        mode_defs ex_props_defs ex_fun_state_def ex_symbol_def Let_def)
  show ?thesis
    using traversal_emits_symbol_effects [OF h1 h2 h3 k, of ex_imports "''@g''", THEN conjunct2]
      h1 h2 h3 a b c
    by simp
qed

subsection \<open>What is shown and what is counted\<close>

text \<open>
  C10, as stated, fails: the count and the range of the arrow keys are not bounded by
  1000, and the summary is not always shown. With 1001 functions and the bare query \<open>@\<close>
  the results after mount are all 1001 of them, unfiltered; the count and the summary say
  1001 and ArrowUp from the first item selects index 1000. In gotoSource mode the count
  is handed to the search input and no summary is.
\<close>

theorem count_bound_counterexample:
  "results (componentDidMount ex_imports ex_many_props constructor)
     = Some (replicate 1001 (ex_symbol ''f'' 1 3))
   \<and> getResultCount (componentDidMount ex_imports ex_many_props constructor) = 1001
   \<and> \<not> getResultCount (componentDidMount ex_imports ex_many_props constructor) \<le> 1000
   \<and> map_option v_count
        (render ex_imports ex_many_props (componentDidMount ex_imports ex_many_props constructor))
       = Some 1001
   \<and> map_option v_summaryMsg
        (render ex_imports ex_many_props (componentDidMount ex_imports ex_many_props constructor))
       = Some (Some 1001)
   \<and> onKeyDown ex_imports ex_many_props ''ArrowUp''
        (componentDidMount ex_imports ex_many_props constructor)
       = Inr (\<lparr>results = Some (replicate 1001 (ex_symbol ''f'' 1 3)), selectedIndex = Num 1000\<rparr>,
              [HighlightLineRange (Some (1, 3)) ''s1''])
   \<and> map_option v_count (render ex_imports ex_gotoSource_props ex_state3) = Some 3
   \<and> map_option v_summaryMsg (render ex_imports ex_gotoSource_props ex_state3) = Some None"
proof -
  have m: "componentDidMount ex_imports ex_many_props constructor
             = \<lparr>results = Some (replicate 1001 (ex_symbol ''f'' 1 3)), selectedIndex = Num 0\<rparr>"
    by (simp add: componentDidMount_def updateResults_def searchSymbols_def mode_defs
        ex_many_props_def ex_props_defs constructor_def)
  have c: "getResultCount \<lparr>results = Some (replicate 1001 (ex_symbol ''f'' 1 3)), selectedIndex = Num 0\<rparr> = 1001"
    by (simp add: getResultCount_def)
  have r: "map_option v_count (render ex_imports ex_many_props
             \<lparr>results = Some (replicate 1001 (ex_symbol ''f'' 1 3)), selectedIndex = Num 0\<rparr>) = Some 1001"
    "map_option v_summaryMsg (render ex_imports ex_many_props
             \<lparr>results = Some (replicate 1001 (ex_symbol ''f'' 1 3)), selectedIndex = Num 0\<rparr>) = Some (Some 1001)"
    by (simp_all add: render_def c Let_def mode_defs ex_many_props_def ex_props_defs)
  have en: "enabled ex_many_props" "\<not> isGotoQuery ex_many_props"
    by (simp_all add: mode_defs ex_many_props_def ex_props_defs)
  have os: "onSelectResultItem ex_many_props (Some (ex_symbol ''f'' 1 3))
              = Inr [HighlightLineRange (Some (1, 3)) ''s1'']"
    by (simp add: onSelectResultItem_def mode_defs ex_many_props_def ex_props_defs ex_symbol_def)
  have k: "onKeyDown ex_imports ex_many_props ''ArrowUp''
        \<lparr>results = Some (replicate 1001 (ex_symbol ''f'' 1 3)), selectedIndex = Num 0\<rparr>
       = Inr (\<lparr>results = Some (replicate 1001 (ex_symbol ''f'' 1 3)), selectedIndex = Num 1000\<rparr>,
              [HighlightLineRange (Some (1, 3)) ''s1''])"
    by (simp add: onKeyDown_def traverseResults_def c en os Let_def)
  have g: "map_option v_count (render ex_imports ex_gotoSource_props ex_state3) = Some 3"
    "map_option v_summaryMsg (render ex_imports ex_gotoSource_props ex_state3) = Some None"
    by (simp_all add: render_def getResultCount_def Let_def mode_defs ex_gotoSource_props_def
        ex_props_defs ex_state3_def)
  show ?thesis unfolding m using c r k g by simp
qed

text \<open>The paths of \<open>updateResults\<close> that go through \<open>filter\<close>.\<close>

lemma updateResults_filtered:
  assumes "q \<noteq> []" and "\<not> isGotoQuery p"
    and "isSymbolSearch p \<longrightarrow> q \<noteq> ''@'' \<and> q \<noteq> ''#''"
    and "isShortcutQuery p \<longrightarrow> q \<noteq> ''?''"
  shows "\<exists>cands q'. results (updateResults im p q st)
            = Some (fuzzyAldrin_filter im cands q' item_value 1000)"
  using assms
  by (auto simp: updateResults_def searchSymbols_def searchShortcuts_def searchSources_def
      filter_values_def Let_def)

text \<open>
  C10, amended. With results present, the open modal renders the first 100 items of the
  list and no more, while the count handed to the search input, the count in the summary
  (which is shown in sources, symbol and shortcuts mode and in no other) and the range of
  the arrow keys are the full length of the list; so on a list longer than 100, ArrowUp
  from the first item selects the last one, an index of the list that is no index of the
  items shown. The modal itself caps nothing: where the results are filtered (a non-empty
  query outside goto mode that is not a bare \<open>@\<close> or \<open>#\<close> in a symbol mode nor \<open>?\<close> in
  shortcuts mode) they are what the fuzzy filter returns when asked for at most 1000, so
  at most 1000 when the library keeps to that; unfiltered lists have no bound.
\<close>

theorem render_shows_first_hundred:
  assumes "enabled p" and "results st = Some rs"
  shows "(\<exists>v rl. render im p st = Some v \<and> v_resultList v = Some rl
            \<and> map li_item (rl_items rl) = take 100 rs \<and> length (rl_items rl) \<le> 100
            \<and> rl_selected rl = selectedIndex st \<and> v_count v = int (length rs)
            \<and> v_summaryMsg v =
                (if isSourcesQuery p \<or> isSymbolSearch p \<or> isShortcutQuery p
                 then Some (int (length rs)) else None))
       \<and> getResultCount st = int (length rs)
       \<and> (100 < length rs \<and> selectedIndex st = Num 0 \<longrightarrow>
            (\<exists>effs. onKeyDown im p ''ArrowUp'' st =
                      Inr (st\<lparr>selectedIndex := Num (int (length rs) - 1)\<rparr>, effs))
            \<and> js_index rs (Num (int (length rs) - 1)) = Some (last rs)
            \<and> js_index (take 100 rs) (Num (int (length rs) - 1)) = None)
       \<and> (q \<noteq> [] \<and> \<not> isGotoQuery p' \<and> (isSymbolSearch p' \<longrightarrow> q \<noteq> ''@'' \<and> q \<noteq> ''#'')
            \<and> (isShortcutQuery p' \<longrightarrow> q \<noteq> ''?'') \<longrightarrow>
            (\<exists>cands q'. results (updateResults im p' q st0)
                = Some (fuzzyAldrin_filter im cands q' item_value 1000))
            \<and> ((\<forall>vals q' n. length (fuzzyAldrin_filter im vals q' item_value n) \<le> n) \<longrightarrow>
                 (\<exists>rs'. results (updateResults im p' q st0) = Some rs' \<and> length rs' \<le> 1000)))"
proof (intro conjI)
  have cnt: "getResultCount st = int (length rs)"
    using assms(2) by (simp add: getResultCount_def)
  show "getResultCount st = int (length rs)" by (rule cnt)
  have hm: "map li_item (highlightMatching im p q' xs) = xs" for q' xs
    by (simp add: highlightMatching_def o_def)
  have hl: "length (highlightMatching im p q' xs) = length xs" for q' xs
    by (simp add: highlightMatching_def)
  show "\<exists>v rl. render im p st = Some v \<and> v_resultList v = Some rl
            \<and> map li_item (rl_items rl) = take 100 rs \<and> length (rl_items rl) \<le> 100
            \<and> rl_selected rl = selectedIndex st \<and> v_count v = int (length rs)
            \<and> v_summaryMsg v =
                (if isSourcesQuery p \<or> isSymbolSearch p \<or> isShortcutQuery p
                 then Some (int (length rs)) else None)"
    using assms cnt by (simp add: render_def Let_def hm hl)
  show "100 < length rs \<and> selectedIndex st = Num 0 \<longrightarrow>
            (\<exists>effs. onKeyDown im p ''ArrowUp'' st =
                      Inr (st\<lparr>selectedIndex := Num (int (length rs) - 1)\<rparr>, effs))
            \<and> js_index rs (Num (int (length rs) - 1)) = Some (last rs)
            \<and> js_index (take 100 rs) (Num (int (length rs) - 1)) = None"
  proof
    assume a: "100 < length rs \<and> selectedIndex st = Num 0"
    define n where "n = int (length rs)"
    have n: "100 < n" using a by (simp add: n_def)
    have "0 \<le> n - 1" "n - 1 < n" using n by linarith+
    then have m: "(n - 1) mod n = n - 1" by (rule mod_pos_pos_trivial)
    have j: "n - 1 = (0 + (if ''ArrowUp'' = ''ArrowUp'' then - 1 else 1) + int (length rs)) mod int (length rs)"
      using m by (simp add: n_def)
    have z: "(0::int) \<le> 0" "0 < int (length rs)" using n unfolding n_def by linarith+
    have tr: "\<exists>effs. traverseResults p ''ArrowUp'' st = Inr (st\<lparr>selectedIndex := Num (n - 1)\<rparr>, effs)"
      using traverse_valid [OF assms(2) _ z j, of p] a by blast
    have kd: "onKeyDown im p ''ArrowUp'' st = traverseResults p ''ArrowUp'' st"
      using onKeyDown_arrow [of p st rs "''ArrowUp''" im] assms by simp
    have ne: "rs \<noteq> []" using z by auto
    have la: "rs ! nat (n - 1) = last rs"
      using ne by (simp add: last_conv_nth n_def nat_diff_distrib')
    have b1: "0 \<le> n - 1" and b2: "n - 1 < int (length rs)" using n unfolding n_def by linarith+
    have i1: "js_index rs (Num (n - 1)) = Some (last rs)"
      using b1 b2 la by simp
    have "length (take 100 rs) = 100" using a by simp
    then have "\<not> n - 1 < int (length (take 100 rs))" using n by linarith
    then have i2: "js_index (take 100 rs) (Num (n - 1)) = None" by simp
    show "(\<exists>effs. onKeyDown im p ''ArrowUp'' st =
                      Inr (st\<lparr>selectedIndex := Num (int (length rs) - 1)\<rparr>, effs))
            \<and> js_index rs (Num (int (length rs) - 1)) = Some (last rs)
            \<and> js_index (take 100 rs) (Num (int (length rs) - 1)) = None"
      using tr kd i1 i2 unfolding n_def by simp
  qed
  show "q \<noteq> [] \<and> \<not> isGotoQuery p' \<and> (isSymbolSearch p' \<longrightarrow> q \<noteq> ''@'' \<and> q \<noteq> ''#'')
            \<and> (isShortcutQuery p' \<longrightarrow> q \<noteq> ''?'') \<longrightarrow>
            (\<exists>cands q'. results (updateResults im p' q st0)
                = Some (fuzzyAldrin_filter im cands q' item_value 1000))
            \<and> ((\<forall>vals q' n. length (fuzzyAldrin_filter im vals q' item_value n) \<le> n) \<longrightarrow>
                 (\<exists>rs'. results (updateResults im p' q st0) = Some rs' \<and> length rs' \<le> 1000))"
  proof
    assume h: "q \<noteq> [] \<and> \<not> isGotoQuery p' \<and> (isSymbolSearch p' \<longrightarrow> q \<noteq> ''@'' \<and> q \<noteq> ''#'')
            \<and> (isShortcutQuery p' \<longrightarrow> q \<noteq> ''?'')"
    then obtain cands q' where f: "results (updateResults im p' q st0)
                = Some (fuzzyAldrin_filter im cands q' item_value 1000)"
      using updateResults_filtered [of q p' im st0] by blast
    then show "(\<exists>cands q'. results (updateResults im p' q st0)
                = Some (fuzzyAldrin_filter im cands q' item_value 1000))
            \<and> ((\<forall>vals q' n. length (fuzzyAldrin_filter im vals q' item_value n) \<le> n) \<longrightarrow>
                 (\<exists>rs'. results (updateResults im p' q st0) = Some rs' \<and> length rs' \<le> 1000))"
      by auto
  qed
qed

theorem render_shows_first_hundred_witness:
  "enabled ex_props
   \<and> results ex_long_state = Some (replicate 101 (ex_source ''a.js''))
   \<and> (\<exists>v rl. render ex_imports ex_props ex_long_state = Some v \<and> v_resultList v = Some rl
         \<and> length (rl_items rl) = 100 \<and> v_count v = 101 \<and> v_summaryMsg v = Some 101)
   \<and> (\<exists>effs. onKeyDown ex_imports ex_props ''ArrowUp'' ex_long_state =
                Inr (ex_long_state\<lparr>selectedIndex := Num 100\<rparr>, effs))
   \<and> js_index (take 100 (replicate 101 (ex_source ''a.js''))) (Num 100) = None
   \<and> (\<exists>rs'. results (updateResults ex_imports ex_props ''a'' constructor) = Some rs'
         \<and> length rs' \<le> 1000)"
proof -
  have e: "enabled ex_props" by (simp add: ex_props_def)
  have r: "results ex_long_state = Some (replicate 101 (ex_source ''a.js''))"
    by (simp add: ex_long_state_def)
  have i: "selectedIndex ex_long_state = Num 0" by (simp add: ex_long_state_def)
  have f: "\<forall>vals q' n. length (fuzzyAldrin_filter ex_imports vals q' item_value n) \<le> n"
    by (simp add: ex_imports_def)
  have md: "isSourcesQuery ex_props" "\<not> isGotoQuery ex_props" "\<not> isSymbolSearch ex_props"
    "\<not> isShortcutQuery ex_props"
    by (simp_all add: mode_defs ex_props_def)
  have qn: "''a'' \<noteq> []" by simp
  note t = render_shows_first_hundred [OF e r, of ex_imports "''a''" ex_props constructor]
  have v: "\<exists>v rl. render ex_imports ex_props ex_long_state = Some v \<and> v_resultList v = Some rl
         \<and> length (rl_items rl) = 100 \<and> v_count v = 101 \<and> v_summaryMsg v = Some 101"
  proof -
    obtain v rl where v: "render ex_imports ex_props ex_long_state = Some v"
      "v_resultList v = Some rl"
      "map li_item (rl_items rl) = take 100 (replicate 101 (ex_source ''a.js''))"
      "v_count v = int (length (replicate 101 (ex_source ''a.js'')))"
      "v_summaryMsg v =
                (if isSourcesQuery ex_props \<or> isSymbolSearch ex_props \<or> isShortcutQuery ex_props
                 then Some (int (length (replicate 101 (ex_source ''a.js'')))) else None)"
      using t by blast
    have "length (map li_item (rl_items rl)) = 100" unfolding v(3) by simp
    then have "length (rl_items rl) = 100" by simp
    with v md show ?thesis by simp
  qed
  have k: "(\<exists>effs. onKeyDown ex_imports ex_props ''ArrowUp'' ex_long_state =
                Inr (ex_long_state\<lparr>selectedIndex := Num 100\<rparr>, effs))
        \<and> js_index (take 100 (replicate 101 (ex_source ''a.js''))) (Num 100) = None"
    using t i by simp
  have b: "\<exists>rs'. results (updateResults ex_imports ex_props ''a'' constructor) = Some rs'
         \<and> length rs' \<le> 1000"
    using t md qn f by blast
  show ?thesis using e r v k b by blast
qed

section \<open>Properties of the worker's dispatch table\<close>

text \<open>
  C9. The table handed to \<open>workerHandler\<close> has exactly the sixteen keys below, each once,
  in this order, and the value of each key is the function the entry point imports under
  that very name: the named export of the same name, or the default export, of the module
  given here. The sixteen imports are different ones, a lookup finds exactly these sixteen
  names, and the table is handed to \<open>workerHandler\<close> as it is.
\<close>

theorem worker_dispatch_table:
  "publicInterface =
     [(''getClosestExpression'',
         Some \<lparr>imp_local = ''getClosestExpression'', imp_exported = ''getClosestExpression'',
               imp_module = ''./utils/closest''\<rparr>),
      (''findOutOfScopeLocations'',
         Some \<lparr>imp_local = ''findOutOfScopeLocations'', imp_exported = ''default'',
               imp_module = ''./findOutOfScopeLocations''\<rparr>),
      (''getSymbols'',
         Some \<lparr>imp_local = ''getSymbols'', imp_exported = ''default'',
               imp_module = ''./getSymbols''\<rparr>),
      (''getScopes'',
         Some \<lparr>imp_local = ''getScopes'', imp_exported = ''default'',
               imp_module = ''./getScopes''\<rparr>),
      (''clearSymbols'',
         Some \<lparr>imp_local = ''clearSymbols'', imp_exported = ''clearSymbols'',
               imp_module = ''./getSymbols''\<rparr>),
      (''clearScopes'',
         Some \<lparr>imp_local = ''clearScopes'', imp_exported = ''clearScopes'',
               imp_module = ''./getScopes''\<rparr>),
      (''clearASTs'',
         Some \<lparr>imp_local = ''clearASTs'', imp_exported = ''clearASTs'',
               imp_module = ''./utils/ast''\<rparr>),
      (''hasSource'',
         Some \<lparr>imp_local = ''hasSource'', imp_exported = ''hasSource'',
               imp_module = ''./sources''\<rparr>),
      (''setSource'',
         Some \<lparr>imp_local = ''setSource'', imp_exported = ''setSource'',
               imp_module = ''./sources''\<rparr>),
      (''clearSources'',
         Some \<lparr>imp_local = ''clearSources'', imp_exported = ''clearSources'',
               imp_module = ''./sources''\<rparr>),
      (''getVariablesInScope'',
         Some \<lparr>imp_local = ''getVariablesInScope'', imp_exported = ''getVariablesInScope'',
               imp_module = ''./scopes''\<rparr>),
      (''getNextStep'',
         Some \<lparr>imp_local = ''getNextStep'', imp_exported = ''getNextStep'',
               imp_module = ''./steps''\<rparr>),
      (''getEmptyLines'',
         Some \<lparr>imp_local = ''getEmptyLines'', imp_exported = ''default'',
               imp_module = ''./getEmptyLines''\<rparr>),
      (''hasSyntaxError'',
         Some \<lparr>imp_local = ''hasSyntaxError'', imp_exported = ''hasSyntaxError'',
               imp_module = ''./validate''\<rparr>),
      (''isReactComponent'',
         Some \<lparr>imp_local = ''isReactComponent'', imp_exported = ''isReactComponent'',
               imp_module = ''./frameworks''\<rparr>),
      (''replaceOriginalVariableName'',
         Some \<lparr>imp_local = ''replaceOriginalVariableName'',
               imp_exported = ''replaceOriginalVariableName'',
               imp_module = ''devtools-map-bindings/src/utils''\<rparr>)]
   \<and> length publicInterface = 16
   \<and> distinct (map fst publicInterface)
   \<and> map (map_option imp_local \<circ> snd) publicInterface = map (Some \<circ> fst) publicInterface
   \<and> distinct (map snd publicInterface)
   \<and> dom (map_of publicInterface) =
       {''getClosestExpression'', ''findOutOfScopeLocations'', ''getSymbols'', ''getScopes'',
        ''clearSymbols'', ''clearScopes'', ''clearASTs'', ''hasSource'', ''setSource'',
        ''clearSources'', ''getVariablesInScope'', ''getNextStep'', ''getEmptyLines'',
        ''hasSyntaxError'', ''isReactComponent'', ''replaceOriginalVariableName''}
   \<and> onmessage workerHandler = workerHandler publicInterface"
proof (intro conjI)
  have keys: "map fst publicInterface =
     [''getClosestExpression'', ''findOutOfScopeLocations'', ''getSymbols'', ''getScopes'',
      ''clearSymbols'', ''clearScopes'', ''clearASTs'', ''hasSource'', ''setSource'',
      ''clearSources'', ''getVariablesInScope'', ''getNextStep'', ''getEmptyLines'',
      ''hasSyntaxError'', ''isReactComponent'', ''replaceOriginalVariableName'']"
    by (simp add: publicInterface_def shorthand_def)
  show "publicInterface =
     [(''getClosestExpression'',
         Some \<lparr>imp_local = ''getClosestExpression'', imp_exported = ''getClosestExpression'',
               imp_module = ''./utils/closest''\<rparr>),
      (''findOutOfScopeLocations'',
         Some \<lparr>imp_local = ''findOutOfScopeLocations'', imp_exported = ''default'',
               imp_module = ''./findOutOfScopeLocations''\<rparr>),
      (''getSymbols'',
         Some \<lparr>imp_local = ''getSymbols'', imp_exported = ''default'',
               imp_module = ''./getSymbols''\<rparr>),
      (''getScopes'',
         Some \<lparr>imp_local = ''getScopes'', imp_exported = ''default'',
               imp_module = ''./getScopes''\<rparr>),
      (''clearSymbols'',
         Some \<lparr>imp_local = ''clearSymbols'', imp_exported = ''clearSymbols'',
               imp_module = ''./getSymbols''\<rparr>),
      (''clearScopes'',
         Some \<lparr>imp_local = ''clearScopes'', imp_exported = ''clearScopes'',
               imp_module = ''./getScopes''\<rparr>),
      (''clearASTs'',
         Some \<lparr>imp_local = ''clearASTs'', imp_exported = ''clearASTs'',
               imp_module = ''./utils/ast''\<rparr>),
      (''hasSource'',
         Some \<lparr>imp_local = ''hasSource'', imp_exported = ''hasSource'',
               imp_module = ''./sources''\<rparr>),
      (''setSource'',
         Some \<lparr>imp_local = ''setSource'', imp_exported = ''setSource'',
               imp_module = ''./sources''\<rparr>),
      (''clearSources'',
         Some \<lparr>imp_local = ''clearSources'', imp_exported = ''clearSources'',
               imp_module = ''./sources''\<rparr>),
      (''getVariablesInScope'',
         Some \<lparr>imp_local = ''getVariablesInScope'', imp_exported = ''getVariablesInScope'',
               imp_module = ''./scopes''\<rparr>),
      (''getNextStep'',
         Some \<lparr>imp_local = ''getNextStep'', imp_exported = ''getNextStep'',
               imp_module = ''./steps''\<rparr>),
      (''getEmptyLines'',
         Some \<lparr>imp_local = ''getEmptyLines'', imp_exported = ''default'',
               imp_module = ''./getEmptyLines''\<rparr>),
      (''hasSyntaxError'',
         Some \<lparr>imp_local = ''hasSyntaxError'', imp_exported = ''hasSyntaxError'',
               imp_module = ''./validate''\<rparr>),
      (''isReactComponent'',
         Some \<lparr>imp_local = ''isReactComponent'', imp_exported = ''isReactComponent'',
               imp_module = ''./frameworks''\<rparr>),
      (''replaceOriginalVariableName'',
         Some \<lparr>imp_local = ''replaceOriginalVariableName'',
               imp_exported = ''replaceOriginalVariableName'',
               imp_module = ''devtools-map-bindings/src/utils''\<rparr>)]"
    by (simp add: worker_defs)
  show "length publicInterface = 16"
    by (simp add: publicInterface_def)
  show "distinct (map fst publicInterface)"
    unfolding keys by simp
  show "map (map_option imp_local \<circ> snd) publicInterface = map (Some \<circ> fst) publicInterface"
    by (simp add: worker_defs)
  show "distinct (map snd publicInterface)"
    by (simp add: worker_defs)
  show "dom (map_of publicInterface) =
       {''getClosestExpression'', ''findOutOfScopeLocations'', ''getSymbols'', ''getScopes'',
        ''clearSymbols'', ''clearScopes'', ''clearASTs'', ''hasSource'', ''setSource'',
        ''clearSources'', ''getVariablesInScope'', ''getNextStep'', ''getEmptyLines'',
        ''hasSyntaxError'', ''isReactComponent'', ''replaceOriginalVariableName''}"
    unfolding dom_map_of_conv_image_fst set_map [symmetric] keys by simp
  show "onmessage workerHandler = workerHandler publicInterface"
    by (simp add: onmessage_def)
qed

end
